theory Spec2Isabelle
  imports Main "HOL-Library.Signed_Division"
begin

section \<open>Elasticsearch bulk ingestion: data model\<close>

text \<open>
  The development follows the Go package \<open>elasticsearch\<close> (the \<open>/_bulk\<close> insert handler).
  A \<open>logstorage.Field\<close> is a pair of strings that the handler mutates in place; a row is
  what \<open>LogRows.MustAdd\<close> receives.  Go's \<open>int64\<close> is modelled by \<open>int\<close> together with the
  two's-complement wrap \<open>wrap64\<close> at the one place where the source multiplies.
\<close>

record Field =
  Name :: string
  Value :: string

type_synonym TenantID = nat

record Row =
  rowTenant :: TenantID
  rowTimestamp :: int
  rowFields :: "Field list"

definition MaxInt64 :: int where
  "MaxInt64 = 2 ^ 63 - 1"

definition MinInt64 :: int where
  "MinInt64 = - (2 ^ 63)"

definition wrap64 :: "int \<Rightarrow> int" where
  "wrap64 x = (x + 2 ^ 63) mod 2 ^ 64 - 2 ^ 63"

section \<open>Go's \<open>strconv.ParseInt(s, 10, 64)\<close>\<close>

text \<open>
  The standard-library integer parser, specialised to base 10 and 64 bits: an optional
  sign, then decimal digits only; \<open>ParseUint\<close> reports a range error as soon as the
  unsigned accumulator would leave \<open>uint64\<close>, and \<open>ParseInt\<close> then checks the signed range.
  The \<open>uint64\<close> accumulator is an \<open>int\<close> that the range checks keep within \<open>uint64\<close>.
\<close>

datatype NumError = ErrSyntax | ErrRange

definition isDigit :: "char \<Rightarrow> bool" where
  "isDigit c = (48 \<le> (of_char c :: int) \<and> (of_char c :: int) \<le> 57)"

definition digitVal :: "char \<Rightarrow> int" where
  "digitVal c = (of_char c :: int) - 48"

definition maxUint64 :: int where
  "maxUint64 = 2 ^ 64 - 1"

fun ParseUint_loop :: "int \<Rightarrow> string \<Rightarrow> NumError + int" where
  "ParseUint_loop n [] = Inr n"
| "ParseUint_loop n (c # cs) =
     (if \<not> isDigit c then Inl ErrSyntax
      else if n \<ge> maxUint64 div 10 + 1 then Inl ErrRange
      else if n * 10 + digitVal c > maxUint64 then Inl ErrRange
      else ParseUint_loop (n * 10 + digitVal c) cs)"

definition ParseUint :: "string \<Rightarrow> NumError + int" where
  "ParseUint s = (if s = [] then Inl ErrSyntax else ParseUint_loop 0 s)"

definition ParseInt :: "string \<Rightarrow> NumError + int" where
  "ParseInt s0 =
     (if s0 = [] then Inl ErrSyntax
      else
        let neg = (hd s0 = CHR ''-'');
            s = (if hd s0 = CHR ''+'' \<or> hd s0 = CHR ''-'' then tl s0 else s0)
        in (case ParseUint s of
              Inl ErrSyntax \<Rightarrow> Inl ErrSyntax
            | Inl ErrRange \<Rightarrow> Inl ErrRange
            | Inr un \<Rightarrow>
                if \<not> neg \<and> un \<ge> 2 ^ 63 then Inl ErrRange
                else if neg \<and> un > 2 ^ 63 then Inl ErrRange
                else Inr (if neg then - un else un)))"

section \<open>Go's \<open>time.Parse("2006-01-02", s)\<close> and \<open>UnixNano\<close>\<close>

text \<open>
  The standard-library parser for the one date layout the handler uses, as package
  \<open>time\<close> runs it: a year that starts with a digit and is four digits long, a dash, a
  month of two digits that must lie between 1 and 12, a dash, a day of two digits, no
  text after it, and at the end the day checked against the length of the month.  The
  parsed time is midnight UTC of the civil date \<open>(year, month, day)\<close>.  \<open>Date_Unix\<close> is
  its Unix time in seconds in the proleptic Gregorian calendar, and \<open>UnixNano\<close> the
  64-bit product with \<open>10^9\<close> that \<open>Time.UnixNano\<close> returns; the library leaves the result
  undefined when the instant does not fit, and the multiplication wraps.  \<open>leadingInt\<close>
  is without its overflow check, since it only sees four bytes here.
\<close>

fun leadingInt :: "int \<Rightarrow> string \<Rightarrow> int \<times> string" where
  "leadingInt x [] = (x, [])"
| "leadingInt x (c # cs) =
     (if isDigit c then leadingInt (x * 10 + digitVal c) cs else (x, c # cs))"

definition atoi :: "string \<Rightarrow> int option" where
  "atoi s0 =
     (let neg = (s0 \<noteq> [] \<and> hd s0 = CHR ''-'');
          s = (if s0 \<noteq> [] \<and> (hd s0 = CHR ''-'' \<or> hd s0 = CHR ''+'') then tl s0 else s0)
      in case leadingInt 0 s of
           (q, rem) \<Rightarrow> if rem \<noteq> [] then None else Some (if neg then - q else q))"

fun getnum :: "string \<Rightarrow> (int \<times> string) option" where
  "getnum (a # b # rest) =
     (if isDigit a \<and> isDigit b then Some (digitVal a * 10 + digitVal b, rest) else None)"
| "getnum s = None"

fun skip_dash :: "string \<Rightarrow> string option" where
  "skip_dash [] = None"
| "skip_dash (c # cs) = (if c = CHR ''-'' then Some cs else None)"

definition isLeap :: "int \<Rightarrow> bool" where
  "isLeap year = (year mod 4 = 0 \<and> (year mod 100 \<noteq> 0 \<or> year mod 400 = 0))"

definition daysBefore :: "int list" where
  "daysBefore = [0, 31, 59, 90, 120, 151, 181, 212, 243, 273, 304, 334, 365]"

definition daysIn :: "int \<Rightarrow> int \<Rightarrow> int" where
  "daysIn m year =
     (if m = 2 \<and> isLeap year then 29
      else daysBefore ! nat m - daysBefore ! nat (m - 1))"

definition time_Parse_date :: "string \<Rightarrow> (int \<times> int \<times> int) option" where
  "time_Parse_date v =
     (if length v < 4 \<or> \<not> isDigit (v ! 0) then None
      else
        (case atoi (take 4 v) of
           None \<Rightarrow> None
         | Some year \<Rightarrow>
             (case skip_dash (drop 4 v) of
                None \<Rightarrow> None
              | Some v1 \<Rightarrow>
                  (case getnum v1 of
                     None \<Rightarrow> None
                   | Some (month, v2) \<Rightarrow>
                       if month \<le> 0 \<or> 12 < month then None
                       else
                         (case skip_dash v2 of
                            None \<Rightarrow> None
                          | Some v3 \<Rightarrow>
                              (case getnum v3 of
                                 None \<Rightarrow> None
                               | Some (day, v4) \<Rightarrow>
                                   if v4 \<noteq> [] then None
                                   else if day < 1 \<or> day > daysIn month year then None
                                   else Some (year, month, day)))))))"

definition Date_Unix :: "int \<Rightarrow> int \<Rightarrow> int \<Rightarrow> int" where
  "Date_Unix year month day =
     (let y = year - 1;
          d = 365 * y + y div 4 - y div 100 + y div 400 - 719162
              + daysBefore ! nat (month - 1)
              + (if isLeap year \<and> month \<ge> 3 then 1 else 0)
              + (day - 1)
      in d * 86400)"

definition UnixNano :: "int \<Rightarrow> int" where
  "UnixNano sec = wrap64 (sec * 1000000000)"

section \<open>The environment of the handler\<close>

text \<open>
  Collaborators that live outside the package are parameters of the model.
  \<open>time_Parse_RFC3339 s\<close> stands for \<open>time.Parse(time.RFC3339, s)\<close> followed by
  \<open>UnixNano()\<close> (\<open>None\<close> when the parse returns an error), \<open>time_Now\<close> for
  \<open>time.Now().UnixNano()\<close>,
  \<open>ParseLogMessage\<close> for the JSON decoder of \<open>lib/logjson\<close> (\<open>None\<close> on a decode error),
  \<open>NeedFlush\<close> for \<open>LogRows.NeedFlush\<close> as a predicate on the rows the batch holds, and
  \<open>GetGzipReader\<close> for \<open>common.GetGzipReader\<close> on the lines a reader will deliver.
\<close>

datatype scan_error = ErrTooLong | ErrIO

record scanner =
  pending :: "string list"
  final_err :: "scan_error option"

record env =
  ParseLogMessage :: "string \<Rightarrow> Field list option"
  time_Parse_RFC3339 :: "string \<Rightarrow> int option"
  time_Now :: int
  NeedFlush :: "Row list \<Rightarrow> bool"
  GetGzipReader :: "scanner \<Rightarrow> scanner option"

section \<open>Timestamp parsing\<close>

datatype ts_error =
    BadMillis string NumError
  | TooBigMillis int
  | TooSmallMillis int
  | BadDate string
  | BadRFC3339 string

definition parseElasticsearchTimestamp :: "env \<Rightarrow> string \<Rightarrow> ts_error + int" where
  "parseElasticsearchTimestamp E s =
     (if length s < length ''YYYY-MM-DD'' \<or> s ! length ''YYYY'' \<noteq> CHR ''-'' then
        (case ParseInt s of
           Inl err \<Rightarrow> Inl (BadMillis s err)
         | Inr n \<Rightarrow>
             if n > MaxInt64 sdiv 1000000 then Inl (TooBigMillis n)
             else if n < MinInt64 sdiv 1000000 then Inl (TooSmallMillis n)
             else Inr (wrap64 (n * 1000000)))
      else if length s = length ''YYYY-MM-DD'' then
        (case time_Parse_date s of
           None \<Rightarrow> Inl (BadDate s)
         | Some (year, month, day) \<Rightarrow> Inr (UnixNano (Date_Unix year month day)))
      else
        (case time_Parse_RFC3339 E s of
           None \<Rightarrow> Inl (BadRFC3339 s)
         | Some t \<Rightarrow> Inr t))"

fun is_overflow :: "ts_error \<Rightarrow> bool" where
  "is_overflow (TooBigMillis n) = True"
| "is_overflow (TooSmallMillis n) = True"
| "is_overflow e = False"


section \<open>Timestamp extraction and message-field remapping\<close>

text \<open>
  Both functions walk the slice by index and mutate the element they stop at.  The model
  walks the list and returns the slice as it is after the call; the extractor returns it
  next to the result, also on the error path, where the source has written nothing.
\<close>

fun extractTimestampFromFields :: "env \<Rightarrow> string \<Rightarrow> Field list \<Rightarrow> (ts_error + int) \<times> Field list" where
  "extractTimestampFromFields E timeField [] = (Inr (time_Now E), [])"
| "extractTimestampFromFields E timeField (f # fs) =
     (if Name f \<noteq> timeField then
        (case extractTimestampFromFields E timeField fs of
           (r, fs') \<Rightarrow> (r, f # fs'))
      else
        (case parseElasticsearchTimestamp E (Value f) of
           Inl err \<Rightarrow> (Inl err, f # fs)
         | Inr ts \<Rightarrow> (Inr ts, f\<lparr>Value := []\<rparr> # fs)))"

fun updateMessageFieldName_loop :: "string \<Rightarrow> Field list \<Rightarrow> Field list" where
  "updateMessageFieldName_loop msgField [] = []"
| "updateMessageFieldName_loop msgField (f # fs) =
     (if Name f = msgField then f\<lparr>Name := ''_msg''\<rparr> # fs
      else f # updateMessageFieldName_loop msgField fs)"

definition updateMessageFieldName :: "string \<Rightarrow> Field list \<Rightarrow> Field list" where
  "updateMessageFieldName msgField fs =
     (if msgField = [] then fs else updateMessageFieldName_loop msgField fs)"

section \<open>The state the handler works on\<close>

text \<open>
  \<open>lr\<close> holds the rows of the request's \<open>LogRows\<close> batch, \<open>storage\<close> the batches handed to
  \<open>vlstorage.MustAddRows\<close>, in call order.  \<open>ingestedAdds\<close> lists the arguments of the calls
  \<open>rowsIngestedTotal.Add\<close>, oldest first, and \<open>rowsIngestedTotal\<close> is the counter itself.
  The remaining fields count the objects currently checked out of each pool.  Logging is
  not part of the state.
\<close>

record world =
  lr :: "Row list"
  storage :: "Row list list"
  rowsDroppedTotal :: int
  rowsIngestedTotal :: int
  ingestedAdds :: "int list"
  bulkRequestsTotal :: int
  lineBuffersOut :: int
  parsersOut :: int
  logRowsOut :: int
  gzipReadersOut :: int
  wcReadersOut :: int

text \<open>
  Modelled from the spec: the batch operations of \<open>lib/logstorage\<close> and the accept path
  \<open>vlstorage.MustAddRows\<close> are not under src/.  The spec: append adds one Row under the
  batch's tenant; flush hands the current batch contents to the storage accept path;
  reset clears rows while preserving the configuration; the batch is created at request
  start and returned to a pool at request end.
\<close>

definition MustAdd :: "Row list \<Rightarrow> TenantID \<Rightarrow> int \<Rightarrow> Field list \<Rightarrow> Row list" where
  "MustAdd rows tenant ts fs = rows @ [\<lparr>rowTenant = tenant, rowTimestamp = ts, rowFields = fs\<rparr>]"

definition ResetKeepSettings :: "Row list \<Rightarrow> Row list" where
  "ResetKeepSettings rows = []"

definition MustAddRows :: "world \<Rightarrow> world" where
  "MustAddRows w = w\<lparr>storage := storage w @ [lr w]\<rparr>"

definition GetLogRows :: "world \<Rightarrow> world" where
  "GetLogRows w = w\<lparr>lr := [], logRowsOut := logRowsOut w + 1\<rparr>"

definition PutLogRows :: "world \<Rightarrow> world" where
  "PutLogRows w = w\<lparr>logRowsOut := logRowsOut w - 1\<rparr>"

text \<open>
  Modelled from the spec: the parser pool of \<open>lib/logjson\<close> (\<open>GetParser\<close>, \<open>PutParser\<close>) is
  not under src/.  The spec: the document-decoder working storage is pooled, checked out
  and checked back in.
\<close>

definition GetParser :: "world \<Rightarrow> world" where
  "GetParser w = w\<lparr>parsersOut := parsersOut w + 1\<rparr>"

definition PutParser :: "world \<Rightarrow> world" where
  "PutParser w = w\<lparr>parsersOut := parsersOut w - 1\<rparr>"

definition rowsIngestedTotal_Add :: "int \<Rightarrow> world \<Rightarrow> world" where
  "rowsIngestedTotal_Add k w =
     w\<lparr>rowsIngestedTotal := rowsIngestedTotal w + k, ingestedAdds := ingestedAdds w @ [k]\<rparr>"

section \<open>The sink closure of the handler\<close>

definition processLogMessage :: "env \<Rightarrow> TenantID \<Rightarrow> bool \<Rightarrow> int \<Rightarrow> Field list \<Rightarrow> world \<Rightarrow> world" where
  "processLogMessage E tenant isDebug ts fs w =
     (let w1 = w\<lparr>lr := MustAdd (lr w) tenant ts fs\<rparr> in
      if isDebug then
        (let w2 = w1\<lparr>lr := ResetKeepSettings (lr w1)\<rparr>
         in w2\<lparr>rowsDroppedTotal := rowsDroppedTotal w2 + 1\<rparr>)
      else if NeedFlush E (lr w1) then
        (let w2 = MustAddRows w1
         in w2\<lparr>lr := ResetKeepSettings (lr w2)\<rparr>)
      else w1)"

section \<open>Reading one line-pair\<close>

text \<open>
  A \<open>bufio.Scanner\<close> over the request body is the list of lines it will still deliver and
  the error \<open>sc.Err()\<close> reports once \<open>Scan\<close> has returned false (\<open>None\<close> at a clean end of
  stream).
\<close>

definition Scan :: "scanner \<Rightarrow> string option \<times> scanner" where
  "Scan sc = (case pending sc of
                [] \<Rightarrow> (None, sc)
              | l # ls \<Rightarrow> (Some l, sc\<lparr>pending := ls\<rparr>))"

fun HasPrefix :: "string \<Rightarrow> string \<Rightarrow> bool" where
  "HasPrefix s [] = True"
| "HasPrefix [] (p # ps) = False"
| "HasPrefix (c # cs) (p # ps) = (c = p \<and> HasPrefix cs ps)"

fun Contains :: "string \<Rightarrow> string \<Rightarrow> bool" where
  "Contains [] sub = (sub = [])"
| "Contains (c # cs) sub = (HasPrefix (c # cs) sub \<or> Contains cs sub)"

definition quoted :: "string \<Rightarrow> string" where
  "quoted s = CHR 0x22 # s @ [CHR 0x22]"

datatype error =
    GzipError
  | CommandTooLong
  | MessageTooLong
  | ScanFailure scan_error
  | UnexpectedCommand string
  | MissingDocument
  | BadDocument
  | BadTimestamp ts_error

function readCommand :: "scanner \<Rightarrow> (error + string option) \<times> scanner" where
  "readCommand sc =
     (case Scan sc of
        (None, sc') \<Rightarrow>
          (case final_err sc' of
             Some ErrTooLong \<Rightarrow> (Inl CommandTooLong, sc')
           | Some ErrIO \<Rightarrow> (Inl (ScanFailure ErrIO), sc')
           | None \<Rightarrow> (Inr None, sc'))
      | (Some line, sc') \<Rightarrow>
          if line = [] then readCommand sc' else (Inr (Some line), sc'))"
  by pat_completeness auto
termination
  by (relation "measure (\<lambda>sc. length (pending sc))")
     (auto simp: Scan_def split: list.splits)

declare readCommand.simps [simp del]

definition readBulkLine ::
  "env \<Rightarrow> string \<Rightarrow> string \<Rightarrow> (int \<Rightarrow> Field list \<Rightarrow> world \<Rightarrow> world) \<Rightarrow> scanner \<Rightarrow> world
   \<Rightarrow> (error + bool) \<times> scanner \<times> world" where
  "readBulkLine E timeField msgField plm sc w =
     (case readCommand sc of
        (Inl err, sc1) \<Rightarrow> (Inl err, sc1, w)
      | (Inr None, sc1) \<Rightarrow> (Inr False, sc1, w)
      | (Inr (Some line), sc1) \<Rightarrow>
          if \<not> Contains line (quoted ''create'') \<and> \<not> Contains line (quoted ''index'')
          then (Inl (UnexpectedCommand line), sc1, w)
          else
            (case Scan sc1 of
               (None, sc2) \<Rightarrow>
                 (case final_err sc2 of
                    Some ErrTooLong \<Rightarrow> (Inl MessageTooLong, sc2, w)
                  | Some ErrIO \<Rightarrow> (Inl (ScanFailure ErrIO), sc2, w)
                  | None \<Rightarrow> (Inl MissingDocument, sc2, w))
             | (Some doc, sc2) \<Rightarrow>
                 (let w1 = GetParser w in
                  case ParseLogMessage E doc of
                    None \<Rightarrow> (Inl BadDocument, sc2, w1)
                  | Some fs \<Rightarrow>
                      (case extractTimestampFromFields E timeField fs of
                         (Inl err, fs1) \<Rightarrow> (Inl (BadTimestamp err), sc2, w1)
                       | (Inr ts, fs1) \<Rightarrow>
                           (let fs2 = updateMessageFieldName msgField fs1;
                                w2 = plm ts fs2 w1
                            in (Inr True, sc2, PutParser w2))))))"


section \<open>Reading the whole request\<close>

text \<open>
  The \<open>for\<close> loop of \<open>readBulkRequest\<close>, with its two counters.  \<open>wcr.DecConcurrency()\<close> has
  no effect on the state kept here.  The loop ends because every line-pair that is read
  takes lines off the scanner.
\<close>

function readBulkRequest_loop ::
  "env \<Rightarrow> string \<Rightarrow> string \<Rightarrow> (int \<Rightarrow> Field list \<Rightarrow> world \<Rightarrow> world) \<Rightarrow> int \<Rightarrow> int \<Rightarrow> scanner \<Rightarrow> world
   \<Rightarrow> (int \<times> error option) \<times> world" where
  "readBulkRequest_loop E timeField msgField plm n nCheckpoint sc w =
     (case readBulkLine E timeField msgField plm sc w of
        (Inl err, sc', w') \<Rightarrow> ((n, Some err), rowsIngestedTotal_Add (n - nCheckpoint) w')
      | (Inr False, sc', w') \<Rightarrow> ((n, None), rowsIngestedTotal_Add (n - nCheckpoint) w')
      | (Inr True, sc', w') \<Rightarrow>
          (let n' = n + 1;
               batchSize = n' - nCheckpoint
           in if n' \<ge> 1000
              then readBulkRequest_loop E timeField msgField plm n' n' sc'
                     (rowsIngestedTotal_Add batchSize w')
              else readBulkRequest_loop E timeField msgField plm n' nCheckpoint sc' w'))"
  by pat_completeness auto
termination
proof -
  have scan_le: "length (pending sc') \<le> length (pending sc)"
    if "Scan sc = (r, sc')" for sc sc' :: scanner and r
    using that by (auto simp: Scan_def split: list.splits)
  have scan_lt: "length (pending sc') < length (pending sc)"
    if "Scan sc = (Some l, sc')" for sc sc' :: scanner and l
    using that by (auto simp: Scan_def split: list.splits)
  have cmd_le: "length (pending sc') \<le> length (pending sc)"
    if "readCommand sc = (r, sc')" for sc sc' :: scanner and r
    using that
  proof (induction sc arbitrary: r sc' rule: readCommand.induct)
    case (1 sc)
    obtain o1 sc1 where sc1: "Scan sc = (o1, sc1)" by (cases "Scan sc")
    note le = scan_le [OF sc1]
    show ?case
    proof (cases o1)
      case None
      with sc1 "1.prems" have "sc' = sc1"
        by (subst (asm) readCommand.simps) (auto split: option.splits scan_error.splits)
      with le show ?thesis by simp
    next
      case (Some line)
      show ?thesis
      proof (cases "line = []")
        case True
        with sc1 Some "1.prems" have "readCommand sc1 = (r, sc')"
          by (subst (asm) readCommand.simps) simp
        from "1.IH" [OF sc1 [symmetric] Some True this] le show ?thesis by simp
      next
        case False
        with sc1 Some "1.prems" have "sc' = sc1"
          by (subst (asm) readCommand.simps) simp
        with le show ?thesis by simp
      qed
    qed
  qed
  have line_lt: "length (pending sc') < length (pending sc)"
    if ok: "readBulkLine E timeField msgField plm sc w = (Inr True, sc', w')"
    for E timeField msgField plm w w' and sc sc' :: scanner
  proof -
    obtain r sc1 where rc: "readCommand sc = (r, sc1)" by (cases "readCommand sc")
    obtain o2 sc2 where s2: "Scan sc1 = (o2, sc2)" by (cases "Scan sc1")
    from ok rc s2 obtain doc where "o2 = Some doc" and "sc' = sc2"
      unfolding readBulkLine_def
      by (auto simp: Let_def split: sum.splits option.splits if_splits scan_error.splits prod.splits)
    with s2 have "length (pending sc') < length (pending sc1)"
      using scan_lt by blast
    with cmd_le [OF rc] show ?thesis by simp
  qed
  show ?thesis
    by (relation "measure (\<lambda>(E, timeField, msgField, plm, n, nCheckpoint, sc, w). length (pending sc))")
       (auto dest: line_lt [OF sym])
qed

declare readBulkRequest_loop.simps [simp del]

definition readBulkRequest ::
  "env \<Rightarrow> scanner \<Rightarrow> bool \<Rightarrow> string \<Rightarrow> string \<Rightarrow> (int \<Rightarrow> Field list \<Rightarrow> world \<Rightarrow> world) \<Rightarrow> world
   \<Rightarrow> (int \<times> error option) \<times> world" where
  "readBulkRequest E r isGzip timeField msgField plm w =
     (case (if isGzip then GetGzipReader E r else Some r) of
        None \<Rightarrow> ((0, Some GzipError), w)
      | Some r' \<Rightarrow>
          (let w1 = (if isGzip then w\<lparr>gzipReadersOut := gzipReadersOut w + 1\<rparr> else w);
               w2 = w1\<lparr>wcReadersOut := wcReadersOut w1 + 1\<rparr>;
               w3 = w2\<lparr>lineBuffersOut := lineBuffersOut w2 + 1\<rparr>
           in case readBulkRequest_loop E timeField msgField plm 0 0 r' w3 of
                (res, w4) \<Rightarrow>
                  (let w5 = w4\<lparr>lineBuffersOut := lineBuffersOut w4 - 1\<rparr>;
                       w6 = w5\<lparr>wcReadersOut := wcReadersOut w5 - 1\<rparr>;
                       w7 = (if isGzip then w6\<lparr>gzipReadersOut := gzipReadersOut w6 - 1\<rparr> else w6)
                   in (res, w7))))"

section \<open>The \<open>/_bulk\<close> case of \<open>RequestHandler\<close>\<close>

text \<open>
  The case starts after the tenant has been extracted.  \<open>tf\<close> and \<open>msgf\<close> are the form
  values \<open>_time_field\<close> and \<open>_msg_field\<close>.  The handler either logs a warning with the row
  count and the error, or writes the bulk response with the row count.
\<close>

datatype outcome = Warned int error | BulkResponse int

definition RequestHandler_bulk ::
  "env \<Rightarrow> TenantID \<Rightarrow> string \<Rightarrow> string \<Rightarrow> bool \<Rightarrow> bool \<Rightarrow> scanner \<Rightarrow> world \<Rightarrow> outcome \<times> world" where
  "RequestHandler_bulk E tenant tf msgf isDebug isGzip body w0 =
     (let w = w0\<lparr>bulkRequestsTotal := bulkRequestsTotal w0 + 1\<rparr>;
          timeField = (if tf \<noteq> [] then tf else ''_time'');
          msgField = (if msgf \<noteq> [] then msgf else []);
          w1 = GetLogRows w
      in case readBulkRequest E body isGzip timeField msgField
                (processLogMessage E tenant isDebug) w1 of
           ((n, Some err), w2) \<Rightarrow> (Warned n err, w2)
         | ((n, None), w2) \<Rightarrow> (BulkResponse n, PutLogRows (MustAddRows w2)))"


section \<open>Well-formed requests\<close>

text \<open>
  A line-pair is well formed when its command line is not blank and names one of the two
  bulk actions, its document decodes, and the timestamp of the decoded fields parses.
  \<open>line_pairs\<close> lays line-pairs out as the lines of a request.
\<close>

definition wellformed_pair :: "env \<Rightarrow> string \<Rightarrow> string \<times> string \<Rightarrow> bool" where
  "wellformed_pair E timeField p =
     (case p of (cmd, doc) \<Rightarrow>
        cmd \<noteq> [] \<and>
        (Contains cmd (quoted ''create'') \<or> Contains cmd (quoted ''index'')) \<and>
        (case ParseLogMessage E doc of
           None \<Rightarrow> False
         | Some fs \<Rightarrow>
             (case fst (extractTimestampFromFields E timeField fs) of
                Inl err \<Rightarrow> False
              | Inr ts \<Rightarrow> True)))"

fun line_pairs :: "(string \<times> string) list \<Rightarrow> string list" where
  "line_pairs [] = []"
| "line_pairs ((cmd, doc) # ps) = cmd # doc # line_pairs ps"

fun rows_of :: "outcome \<Rightarrow> int" where
  "rows_of (Warned n err) = n"
| "rows_of (BulkResponse n) = n"

section \<open>A concrete environment\<close>

text \<open>
  A small decoder, clock and flush threshold on which the model runs: a document that
  starts with a brace decodes to a time field and a message field, anything else is a
  decode error; the batch asks for a flush once it holds 1000 rows.
\<close>

definition example_env :: env where
  "example_env =
     \<lparr>ParseLogMessage =
        (\<lambda>l. if HasPrefix l ''{''
              then Some [\<lparr>Name = ''_time'', Value = ''1700000000000''\<rparr>, \<lparr>Name = ''message'', Value = l\<rparr>]
              else None),
      time_Parse_RFC3339 =
        (\<lambda>s. if s = ''2024-01-15T10:00:00Z'' then Some 1705312800000000000 else None),
      time_Now = 1700000000123456789,
      NeedFlush = (\<lambda>rows. length rows \<ge> 1000),
      GetGzipReader = (\<lambda>r. None)\<rparr>"

text \<open>The same environment with a decoder whose time field never parses.\<close>

definition bad_time_env :: env where
  "bad_time_env =
     example_env\<lparr>ParseLogMessage :=
       (\<lambda>l. if HasPrefix l ''{'' then Some [\<lparr>Name = ''_time'', Value = ''yesterday''\<rparr>] else None)\<rparr>"

definition empty_world :: world where
  "empty_world =
     \<lparr>lr = [], storage = [], rowsDroppedTotal = 0, rowsIngestedTotal = 0, ingestedAdds = [],
      bulkRequestsTotal = 0, lineBuffersOut = 0, parsersOut = 0, logRowsOut = 0,
      gzipReadersOut = 0, wcReadersOut = 0\<rparr>"

definition create_line :: string where
  "create_line = ''{'' @ quoted ''create'' @ '':{}}''"

definition good_doc :: string where
  "good_doc = ''{}''"

definition bad_doc :: string where
  "bad_doc = ''not json''"


section \<open>Timestamp formats\<close>

lemma sdiv_bounds:
  "MaxInt64 sdiv 1000000 = 9223372036854" "MinInt64 sdiv 1000000 = - 9223372036854"
  by (simp_all add: MaxInt64_def MinInt64_def signed_divide_int_def)

lemma wrap64_id: "- (2 ^ 63) \<le> x \<Longrightarrow> x < 2 ^ 63 \<Longrightarrow> wrap64 x = x"
  by (simp add: wrap64_def)

lemma wrap64_millis:
  assumes "\<not> n > MaxInt64 sdiv 1000000" "\<not> n < MinInt64 sdiv 1000000"
  shows "wrap64 (n * 1000000) = n * 1000000"
  using assms by (intro wrap64_id) (simp_all add: sdiv_bounds)

lemma parseElasticsearchTimestamp_unfold:
  "parseElasticsearchTimestamp E s =
     (if length s < 10 \<or> s ! 4 \<noteq> CHR ''-'' then
        (case ParseInt s of
           Inl err \<Rightarrow> Inl (BadMillis s err)
         | Inr n \<Rightarrow>
             if n > MaxInt64 sdiv 1000000 then Inl (TooBigMillis n)
             else if n < MinInt64 sdiv 1000000 then Inl (TooSmallMillis n)
             else Inr (wrap64 (n * 1000000)))
      else if length s = 10 then
        (case time_Parse_date s of
           None \<Rightarrow> Inl (BadDate s)
         | Some (year, month, day) \<Rightarrow> Inr (UnixNano (Date_Unix year month day)))
      else
        (case time_Parse_RFC3339 E s of None \<Rightarrow> Inl (BadRFC3339 s) | Some t \<Rightarrow> Inr t))"
proof -
  have l10: "length ''YYYY-MM-DD'' = 10" and l4: "length ''YYYY'' = 4" by simp_all
  show ?thesis unfolding parseElasticsearchTimestamp_def l10 l4 ..
qed

lemma ParseInt_1700: "ParseInt ''1700000000000'' = Inr 1700000000000"
  by (simp add: ParseInt_def ParseUint_def isDigit_def digitVal_def maxUint64_def)

lemma ParseInt_9223: "ParseInt ''9223372036854775'' = Inr 9223372036854775"
  by (simp add: ParseInt_def ParseUint_def isDigit_def digitVal_def maxUint64_def)










text \<open>
  Claim C4.  In the milliseconds branch, for a successfully parsed integer \<open>n\<close>: the
  parse fails with an overflow error exactly when \<open>n\<close> exceeds \<open>MaxInt64 / 1000000\<close> or
  is below \<open>MinInt64 / 1000000\<close> (Go's truncating division); otherwise the result is
  \<open>n * 1000000\<close> with no wrap-around.  The string 1700000000000 yields that many
  milliseconds in nanoseconds, and 9223372036854775 fails with the overflow error.
\<close>

theorem millis_overflow_guard:
  "(\<forall>s n. (length s < 10 \<or> s ! 4 \<noteq> CHR ''-'') \<and> ParseInt s = Inr n \<longrightarrow>
      ((\<exists>e. parseElasticsearchTimestamp E s = Inl e \<and> is_overflow e)
         \<longleftrightarrow> (n > MaxInt64 sdiv 1000000 \<or> n < MinInt64 sdiv 1000000))
      \<and> (\<not> (n > MaxInt64 sdiv 1000000 \<or> n < MinInt64 sdiv 1000000)
           \<longrightarrow> parseElasticsearchTimestamp E s = Inr (n * 1000000)))
   \<and> parseElasticsearchTimestamp E ''1700000000000'' = Inr (1700000000000 * 10 ^ 6)
   \<and> parseElasticsearchTimestamp E ''9223372036854775'' = Inl (TooBigMillis 9223372036854775)
   \<and> is_overflow (TooBigMillis 9223372036854775)
   \<and> MaxInt64 sdiv 1000000 = 9223372036854 \<and> MinInt64 sdiv 1000000 = - 9223372036854"
proof -
  have gen: "((\<exists>e. parseElasticsearchTimestamp E s = Inl e \<and> is_overflow e)
         \<longleftrightarrow> (n > MaxInt64 sdiv 1000000 \<or> n < MinInt64 sdiv 1000000))
      \<and> (\<not> (n > MaxInt64 sdiv 1000000 \<or> n < MinInt64 sdiv 1000000)
           \<longrightarrow> parseElasticsearchTimestamp E s = Inr (n * 1000000))"
    if "length s < 10 \<or> s ! 4 \<noteq> CHR ''-''" "ParseInt s = Inr n" for s n
    using that by (auto simp: parseElasticsearchTimestamp_unfold wrap64_millis)
  have a: "parseElasticsearchTimestamp E ''1700000000000'' = Inr (1700000000000 * 10 ^ 6)"
    using gen [of "''1700000000000''", OF _ ParseInt_1700] by (simp add: sdiv_bounds)
  have b: "parseElasticsearchTimestamp E ''9223372036854775'' = Inl (TooBigMillis 9223372036854775)"
    by (simp add: parseElasticsearchTimestamp_unfold ParseInt_9223 sdiv_bounds)
  from gen a b show ?thesis by (simp add: sdiv_bounds)
qed

theorem millis_overflow_guard_witness:
  "(length ''-9223372036854'' < 10 \<or> ''-9223372036854'' ! 4 \<noteq> CHR ''-'')
   \<and> ParseInt ''-9223372036854'' = Inr (- 9223372036854)
   \<and> parseElasticsearchTimestamp example_env ''-9223372036854'' = Inr (- 9223372036854000000)
   \<and> ParseInt ''-9223372036855'' = Inr (- 9223372036855)
   \<and> parseElasticsearchTimestamp example_env ''-9223372036855'' = Inl (TooSmallMillis (- 9223372036855))"
proof -
  have p1: "ParseInt ''-9223372036854'' = Inr (- 9223372036854)"
    by (simp add: ParseInt_def ParseUint_def isDigit_def digitVal_def maxUint64_def)
  have p2: "ParseInt ''-9223372036855'' = Inr (- 9223372036855)"
    by (simp add: ParseInt_def ParseUint_def isDigit_def digitVal_def maxUint64_def)
  have c1: "length ''-9223372036854'' < 10 \<or> ''-9223372036854'' ! 4 \<noteq> CHR ''-''" by simp
  have c2: "length ''-9223372036855'' < 10 \<or> ''-9223372036855'' ! 4 \<noteq> CHR ''-''" by simp
  from millis_overflow_guard [of example_env, THEN conjunct1, rule_format, of "''-9223372036854''", OF conjI [OF c1 p1]]
  have r1: "parseElasticsearchTimestamp example_env ''-9223372036854'' = Inr (- 9223372036854000000)"
    by (simp add: sdiv_bounds)
  have r2: "parseElasticsearchTimestamp example_env ''-9223372036855'' = Inl (TooSmallMillis (- 9223372036855))"
    by (simp add: parseElasticsearchTimestamp_unfold p2 sdiv_bounds)
  from c1 p1 r1 p2 r2 show ?thesis by simp
qed



section \<open>Timestamp extraction\<close>

lemma extract_no_match:
  "\<forall>f \<in> set fs. Name f \<noteq> timeField \<Longrightarrow>
     extractTimestampFromFields E timeField fs = (Inr (time_Now E), fs)"
  by (induction fs) auto

lemma extract_skip_prefix:
  "\<forall>g \<in> set pre. Name g \<noteq> timeField \<Longrightarrow>
     extractTimestampFromFields E timeField (pre @ rest) =
       (case extractTimestampFromFields E timeField rest of (r, fs') \<Rightarrow> (r, pre @ fs'))"
  by (induction pre) (auto split: prod.splits)

lemma extract_error_keeps_fields:
  "fst (extractTimestampFromFields E timeField fs) = Inl err \<Longrightarrow>
     snd (extractTimestampFromFields E timeField fs) = fs"
  by (induction fs) (auto split: prod.splits sum.splits if_splits)

text \<open>
  Claim C5, as the code has it.  When no field is named like the time field, the
  extractor returns the current wall-clock time and leaves every field as it was.
  Otherwise only the first field with that name is consulted: when its value parses, the
  value of that field is set to the empty string, while its name and its place in the
  list are kept and every other field, later ones of the same name included, is left as
  it was; when its value does not parse, the error is returned and no field is changed.
\<close>

theorem extractTimestampFromFields_first_match:
  "((\<forall>f \<in> set fs. Name f \<noteq> timeField) \<longrightarrow>
      extractTimestampFromFields E timeField fs = (Inr (time_Now E), fs))
   \<and> ((\<forall>g \<in> set pre. Name g \<noteq> timeField) \<and> Name f = timeField
        \<and> parseElasticsearchTimestamp E (Value f) = Inr ts \<longrightarrow>
      extractTimestampFromFields E timeField (pre @ f # post) =
        (Inr ts, pre @ \<lparr>Name = Name f, Value = []\<rparr> # post))
   \<and> ((\<forall>g \<in> set pre. Name g \<noteq> timeField) \<and> Name f = timeField
        \<and> parseElasticsearchTimestamp E (Value f) = Inl err \<longrightarrow>
      extractTimestampFromFields E timeField (pre @ f # post) = (Inl err, pre @ f # post))"
  by (auto simp: extract_no_match extract_skip_prefix)

theorem extractTimestampFromFields_first_match_witness:
  "extractTimestampFromFields example_env ''_time''
     [\<lparr>Name = ''host'', Value = ''a''\<rparr>, \<lparr>Name = ''_time'', Value = ''1700000000000''\<rparr>,
      \<lparr>Name = ''_time'', Value = ''17''\<rparr>]
   = (Inr 1700000000000000000,
      [\<lparr>Name = ''host'', Value = ''a''\<rparr>, \<lparr>Name = ''_time'', Value = []\<rparr>,
       \<lparr>Name = ''_time'', Value = ''17''\<rparr>])
   \<and> extractTimestampFromFields example_env ''_time'' [\<lparr>Name = ''host'', Value = ''a''\<rparr>]
   = (Inr 1700000000123456789, [\<lparr>Name = ''host'', Value = ''a''\<rparr>])"
proof -
  have p: "parseElasticsearchTimestamp example_env ''1700000000000'' = Inr 1700000000000000000"
    by (simp add: parseElasticsearchTimestamp_unfold ParseInt_1700 sdiv_bounds wrap64_def)
  show ?thesis
    using extractTimestampFromFields_first_match
            [of "[\<lparr>Name = ''host'', Value = ''a''\<rparr>]" "''_time''" example_env
                "[\<lparr>Name = ''host'', Value = ''a''\<rparr>]" "\<lparr>Name = ''_time'', Value = ''1700000000000''\<rparr>"
                "1700000000000000000" "[\<lparr>Name = ''_time'', Value = ''17''\<rparr>]"]
          p
    by (simp add: example_env_def)
qed

text \<open>
  Claim C5 as stated says that the matched field is removed, its name cleared with its
  value.  On a single time field the list returned still holds one field, and that field
  still carries the name.
\<close>

theorem extract_keeps_field_counterexample:
  "extractTimestampFromFields example_env ''_time'' [\<lparr>Name = ''_time'', Value = ''1700000000000''\<rparr>]
     = (Inr 1700000000000000000, [\<lparr>Name = ''_time'', Value = []\<rparr>])
   \<and> [\<lparr>Name = ''_time'', Value = []\<rparr>] \<noteq> ([] :: Field list)
   \<and> Name \<lparr>Name = ''_time'', Value = []\<rparr> \<noteq> []"
  by (simp add: parseElasticsearchTimestamp_unfold ParseInt_1700 sdiv_bounds wrap64_def)

section \<open>Message-field remapping\<close>

lemma update_loop_no_match:
  "\<forall>f \<in> set fs. Name f \<noteq> msgField \<Longrightarrow> updateMessageFieldName_loop msgField fs = fs"
  by (induction fs) auto

lemma update_loop_first_match:
  "\<forall>g \<in> set pre. Name g \<noteq> msgField \<Longrightarrow> Name f = msgField \<Longrightarrow>
     updateMessageFieldName_loop msgField (pre @ f # post) = pre @ f\<lparr>Name := ''_msg''\<rparr> # post"
  by (induction pre) auto

text \<open>
  Claim C9.  With an empty message-field name the remap changes nothing, and so it does
  when no field carries the name.  Otherwise the first field with that name is renamed to
  \<open>_msg\<close> with its value unchanged, and every other field, any later one of the same
  name included, is left as it was.
\<close>

theorem updateMessageFieldName_first_match:
  "(msgField = [] \<longrightarrow> updateMessageFieldName msgField fs = fs)
   \<and> ((\<forall>f \<in> set fs. Name f \<noteq> msgField) \<longrightarrow> updateMessageFieldName msgField fs = fs)
   \<and> (msgField \<noteq> [] \<and> (\<forall>g \<in> set pre. Name g \<noteq> msgField) \<and> Name f = msgField \<longrightarrow>
        updateMessageFieldName msgField (pre @ f # post) =
          pre @ \<lparr>Name = ''_msg'', Value = Value f\<rparr> # post)"
  by (auto simp: updateMessageFieldName_def update_loop_no_match update_loop_first_match)

theorem updateMessageFieldName_first_match_witness:
  "updateMessageFieldName ''message''
     [\<lparr>Name = ''host'', Value = ''a''\<rparr>, \<lparr>Name = ''message'', Value = ''hello''\<rparr>,
      \<lparr>Name = ''message'', Value = ''again''\<rparr>]
   = [\<lparr>Name = ''host'', Value = ''a''\<rparr>, \<lparr>Name = ''_msg'', Value = ''hello''\<rparr>,
      \<lparr>Name = ''message'', Value = ''again''\<rparr>]
   \<and> updateMessageFieldName [] [\<lparr>Name = [], Value = ''x''\<rparr>] = [\<lparr>Name = [], Value = ''x''\<rparr>]
   \<and> updateMessageFieldName ''message'' [\<lparr>Name = ''host'', Value = ''a''\<rparr>] = [\<lparr>Name = ''host'', Value = ''a''\<rparr>]"
  using updateMessageFieldName_first_match
          [of "''message''" "[\<lparr>Name = ''host'', Value = ''a''\<rparr>]"
              "[\<lparr>Name = ''host'', Value = ''a''\<rparr>]" "\<lparr>Name = ''message'', Value = ''hello''\<rparr>"
              "[\<lparr>Name = ''message'', Value = ''again''\<rparr>]"]
        updateMessageFieldName_first_match [of "[]" "[\<lparr>Name = [], Value = ''x''\<rparr>]"]
  by simp



section \<open>One line-pair: end of stream and failures\<close>

lemma readCommand_blank:
  "readCommand \<lparr>pending = [] # ls, final_err = fe\<rparr> = readCommand \<lparr>pending = ls, final_err = fe\<rparr>"
  by (subst readCommand.simps) (simp add: Scan_def)

lemma readCommand_blanks:
  "\<forall>l \<in> set blanks. l = [] \<Longrightarrow>
     readCommand \<lparr>pending = blanks @ ls, final_err = fe\<rparr> = readCommand \<lparr>pending = ls, final_err = fe\<rparr>"
  by (induction blanks) (simp_all add: readCommand_blank)

lemma readCommand_eof:
  "readCommand \<lparr>pending = [], final_err = None\<rparr> = (Inr None, \<lparr>pending = [], final_err = None\<rparr>)"
  by (subst readCommand.simps) (simp add: Scan_def)

lemma readCommand_line:
  "cmd \<noteq> [] \<Longrightarrow>
     readCommand \<lparr>pending = cmd # ls, final_err = fe\<rparr> = (Inr (Some cmd), \<lparr>pending = ls, final_err = fe\<rparr>)"
  by (subst readCommand.simps) (simp add: Scan_def)

text \<open>
  Claim C7.  While the command line is awaited a blank line is skipped.  When the stream
  ends cleanly while a command is awaited (after blank lines only), the result is the
  no-more-records value without an error and the state is untouched.  When the stream
  ends cleanly right after a command line, the result is the missing-document error.
  The two results are different values.
\<close>

theorem readBulkLine_end_of_stream:
  "readBulkLine E timeField msgField plm \<lparr>pending = [] # ls, final_err = fe\<rparr> w
     = readBulkLine E timeField msgField plm \<lparr>pending = ls, final_err = fe\<rparr> w
   \<and> ((\<forall>l \<in> set blanks. l = []) \<longrightarrow>
        readBulkLine E timeField msgField plm \<lparr>pending = blanks, final_err = None\<rparr> w
          = (Inr False, \<lparr>pending = [], final_err = None\<rparr>, w))
   \<and> ((\<forall>l \<in> set blanks. l = []) \<and> cmd \<noteq> []
        \<and> (Contains cmd (quoted ''create'') \<or> Contains cmd (quoted ''index'')) \<longrightarrow>
        readBulkLine E timeField msgField plm \<lparr>pending = blanks @ [cmd], final_err = None\<rparr> w
          = (Inl MissingDocument, \<lparr>pending = [], final_err = None\<rparr>, w))"
proof (intro conjI impI)
  show "readBulkLine E timeField msgField plm \<lparr>pending = [] # ls, final_err = fe\<rparr> w
     = readBulkLine E timeField msgField plm \<lparr>pending = ls, final_err = fe\<rparr> w"
    by (simp add: readBulkLine_def readCommand_blank)
next
  assume b: "\<forall>l \<in> set blanks. l = []"
  from readCommand_blanks [OF b, of "[]" None]
  have "readCommand \<lparr>pending = blanks, final_err = None\<rparr> = (Inr None, \<lparr>pending = [], final_err = None\<rparr>)"
    by (simp add: readCommand_eof)
  then show "readBulkLine E timeField msgField plm \<lparr>pending = blanks, final_err = None\<rparr> w
          = (Inr False, \<lparr>pending = [], final_err = None\<rparr>, w)"
    by (simp add: readBulkLine_def)
next
  assume a: "(\<forall>l \<in> set blanks. l = []) \<and> cmd \<noteq> []
        \<and> (Contains cmd (quoted ''create'') \<or> Contains cmd (quoted ''index''))"
  then have "readCommand \<lparr>pending = blanks @ [cmd], final_err = None\<rparr>
      = (Inr (Some cmd), \<lparr>pending = [], final_err = None\<rparr>)"
    by (simp add: readCommand_blanks readCommand_line)
  with a show "readBulkLine E timeField msgField plm \<lparr>pending = blanks @ [cmd], final_err = None\<rparr> w
          = (Inl MissingDocument, \<lparr>pending = [], final_err = None\<rparr>, w)"
    by (auto simp: readBulkLine_def Scan_def)
qed

lemma create_line_ok: "create_line \<noteq> [] \<and> Contains create_line (quoted ''create'')"
  by (simp add: create_line_def quoted_def)

theorem readBulkLine_end_of_stream_witness:
  "readBulkLine example_env ''_time'' [] (processLogMessage example_env 0 False)
      \<lparr>pending = [[], []], final_err = None\<rparr> empty_world
     = (Inr False, \<lparr>pending = [], final_err = None\<rparr>, empty_world)
   \<and> readBulkLine example_env ''_time'' [] (processLogMessage example_env 0 False)
      \<lparr>pending = [[], create_line], final_err = None\<rparr> empty_world
     = (Inl MissingDocument, \<lparr>pending = [], final_err = None\<rparr>, empty_world)"
  using readBulkLine_end_of_stream
          [of example_env "''_time''" "[]" "processLogMessage example_env 0 False" "[]" None empty_world
              "[[], []]" create_line]
        readBulkLine_end_of_stream
          [of example_env "''_time''" "[]" "processLogMessage example_env 0 False" "[]" None empty_world
              "[[]]" create_line]
        create_line_ok
  by simp

lemma readBulkLine_doc:
  assumes "readCommand sc = (Inr (Some cmd), sc1)"
    and "Contains cmd (quoted ''create'') \<or> Contains cmd (quoted ''index'')"
    and "Scan sc1 = (Some doc, sc2)"
  shows "readBulkLine E timeField msgField plm sc w =
     (case ParseLogMessage E doc of
        None \<Rightarrow> (Inl BadDocument, sc2, GetParser w)
      | Some fs \<Rightarrow>
          (case fst (extractTimestampFromFields E timeField fs) of
             Inl err \<Rightarrow> (Inl (BadTimestamp err), sc2, GetParser w)
           | Inr ts \<Rightarrow>
               (Inr True, sc2,
                PutParser (plm ts (updateMessageFieldName msgField
                                     (snd (extractTimestampFromFields E timeField fs)))
                             (GetParser w)))))"
  using assms
  by (auto simp: readBulkLine_def Let_def split: prod.splits sum.splits option.splits)

text \<open>
  Claim C10.  Once the command line is accepted and the document line is read, a
  document that does not decode, or whose timestamp does not parse, ends the line-pair
  with an error and with the state the parser checkout left: whatever the sink callback
  is, it has not run, so the batch, the storage and the counters are as before.  On a
  timestamp failure the extractor hands the decoded fields back exactly as it got them.
\<close>

theorem failed_line_pair_changes_nothing:
  "readCommand sc = (Inr (Some cmd), sc1)
   \<and> (Contains cmd (quoted ''create'') \<or> Contains cmd (quoted ''index''))
   \<and> Scan sc1 = (Some doc, sc2) \<longrightarrow>
     (ParseLogMessage E doc = None \<longrightarrow>
        readBulkLine E timeField msgField plm sc w = (Inl BadDocument, sc2, GetParser w))
     \<and> (\<forall>fs err. ParseLogMessage E doc = Some fs
          \<and> fst (extractTimestampFromFields E timeField fs) = Inl err \<longrightarrow>
            readBulkLine E timeField msgField plm sc w = (Inl (BadTimestamp err), sc2, GetParser w)
            \<and> snd (extractTimestampFromFields E timeField fs) = fs)
     \<and> lr (GetParser w) = lr w \<and> storage (GetParser w) = storage w
     \<and> rowsDroppedTotal (GetParser w) = rowsDroppedTotal w
     \<and> rowsIngestedTotal (GetParser w) = rowsIngestedTotal w"
proof (intro impI, elim conjE)
  assume rc: "readCommand sc = (Inr (Some cmd), sc1)"
    and ok: "Contains cmd (quoted ''create'') \<or> Contains cmd (quoted ''index'')"
    and sd: "Scan sc1 = (Some doc, sc2)"
  note unfold = readBulkLine_doc [OF rc ok sd, of E timeField msgField plm w]
  have bad_doc: "ParseLogMessage E doc = None \<longrightarrow>
      readBulkLine E timeField msgField plm sc w = (Inl BadDocument, sc2, GetParser w)"
    by (simp add: unfold)
  have bad_ts: "\<forall>fs err. ParseLogMessage E doc = Some fs
        \<and> fst (extractTimestampFromFields E timeField fs) = Inl err \<longrightarrow>
      readBulkLine E timeField msgField plm sc w = (Inl (BadTimestamp err), sc2, GetParser w)
      \<and> snd (extractTimestampFromFields E timeField fs) = fs"
    by (simp add: unfold extract_error_keeps_fields)
  have same: "lr (GetParser w) = lr w \<and> storage (GetParser w) = storage w
      \<and> rowsDroppedTotal (GetParser w) = rowsDroppedTotal w
      \<and> rowsIngestedTotal (GetParser w) = rowsIngestedTotal w"
    by (simp add: GetParser_def)
  from bad_doc bad_ts same
  show "(ParseLogMessage E doc = None \<longrightarrow>
        readBulkLine E timeField msgField plm sc w = (Inl BadDocument, sc2, GetParser w))
     \<and> (\<forall>fs err. ParseLogMessage E doc = Some fs
          \<and> fst (extractTimestampFromFields E timeField fs) = Inl err \<longrightarrow>
            readBulkLine E timeField msgField plm sc w = (Inl (BadTimestamp err), sc2, GetParser w)
            \<and> snd (extractTimestampFromFields E timeField fs) = fs)
     \<and> lr (GetParser w) = lr w \<and> storage (GetParser w) = storage w
     \<and> rowsDroppedTotal (GetParser w) = rowsDroppedTotal w
     \<and> rowsIngestedTotal (GetParser w) = rowsIngestedTotal w"
    by blast
qed

theorem failed_line_pair_changes_nothing_witness:
  "readBulkLine example_env ''_time'' [] (processLogMessage example_env 0 False)
      \<lparr>pending = [create_line, bad_doc], final_err = None\<rparr> empty_world
     = (Inl BadDocument, \<lparr>pending = [], final_err = None\<rparr>, GetParser empty_world)
   \<and> readBulkLine bad_time_env ''_time'' [] (processLogMessage bad_time_env 0 False)
      \<lparr>pending = [create_line, good_doc], final_err = None\<rparr> empty_world
     = (Inl (BadTimestamp (BadMillis ''yesterday'' ErrSyntax)),
        \<lparr>pending = [], final_err = None\<rparr>, GetParser empty_world)
   \<and> snd (extractTimestampFromFields bad_time_env ''_time'' [\<lparr>Name = ''_time'', Value = ''yesterday''\<rparr>])
     = [\<lparr>Name = ''_time'', Value = ''yesterday''\<rparr>]"
proof -
  have rc: "readCommand \<lparr>pending = [create_line, d], final_err = None\<rparr>
      = (Inr (Some create_line), \<lparr>pending = [d], final_err = None\<rparr>)" for d
    using create_line_ok by (simp add: readCommand_line)
  have sd: "Scan \<lparr>pending = [d], final_err = None\<rparr> = (Some d, \<lparr>pending = [], final_err = None\<rparr>)" for d
    by (simp add: Scan_def)
  have p1: "ParseLogMessage example_env bad_doc = None"
    by (simp add: example_env_def bad_doc_def)
  have p2: "ParseLogMessage bad_time_env good_doc = Some [\<lparr>Name = ''_time'', Value = ''yesterday''\<rparr>]"
    by (simp add: bad_time_env_def good_doc_def)
  have ts: "parseElasticsearchTimestamp bad_time_env ''yesterday'' = Inl (BadMillis ''yesterday'' ErrSyntax)"
    by (simp add: parseElasticsearchTimestamp_unfold ParseInt_def ParseUint_def isDigit_def)
  have e2: "fst (extractTimestampFromFields bad_time_env ''_time'' [\<lparr>Name = ''_time'', Value = ''yesterday''\<rparr>])
      = Inl (BadMillis ''yesterday'' ErrSyntax)"
    by (simp add: ts)
  from failed_line_pair_changes_nothing
         [of "\<lparr>pending = [create_line, bad_doc], final_err = None\<rparr>" create_line
             "\<lparr>pending = [bad_doc], final_err = None\<rparr>" bad_doc
             "\<lparr>pending = [], final_err = None\<rparr>" example_env "''_time''" "[]"
             "processLogMessage example_env 0 False" empty_world]
       rc sd p1 create_line_ok
  have a: "readBulkLine example_env ''_time'' [] (processLogMessage example_env 0 False)
      \<lparr>pending = [create_line, bad_doc], final_err = None\<rparr> empty_world
     = (Inl BadDocument, \<lparr>pending = [], final_err = None\<rparr>, GetParser empty_world)"
    by simp
  from failed_line_pair_changes_nothing
         [of "\<lparr>pending = [create_line, good_doc], final_err = None\<rparr>" create_line
             "\<lparr>pending = [good_doc], final_err = None\<rparr>" good_doc
             "\<lparr>pending = [], final_err = None\<rparr>" bad_time_env "''_time''" "[]"
             "processLogMessage bad_time_env 0 False" empty_world]
       rc sd p2 e2 create_line_ok
  have b: "readBulkLine bad_time_env ''_time'' [] (processLogMessage bad_time_env 0 False)
      \<lparr>pending = [create_line, good_doc], final_err = None\<rparr> empty_world
     = (Inl (BadTimestamp (BadMillis ''yesterday'' ErrSyntax)),
        \<lparr>pending = [], final_err = None\<rparr>, GetParser empty_world)
     \<and> snd (extractTimestampFromFields bad_time_env ''_time'' [\<lparr>Name = ''_time'', Value = ''yesterday''\<rparr>])
     = [\<lparr>Name = ''_time'', Value = ''yesterday''\<rparr>]"
    by simp
  from a b show ?thesis by simp
qed



section \<open>Whole requests: evaluation in the concrete environment\<close>

lemma readCommand_create:
  "readCommand \<lparr>pending = create_line # ls, final_err = fe\<rparr>
     = (Inr (Some create_line), \<lparr>pending = ls, final_err = fe\<rparr>)"
  using create_line_ok by (simp add: readCommand_line)

lemma readBulkLine_create:
  "readBulkLine E timeField msgField plm \<lparr>pending = create_line # doc # ls, final_err = fe\<rparr> w =
     (case ParseLogMessage E doc of
        None \<Rightarrow> (Inl BadDocument, \<lparr>pending = ls, final_err = fe\<rparr>, GetParser w)
      | Some fs \<Rightarrow>
          (case fst (extractTimestampFromFields E timeField fs) of
             Inl err \<Rightarrow> (Inl (BadTimestamp err), \<lparr>pending = ls, final_err = fe\<rparr>, GetParser w)
           | Inr ts \<Rightarrow>
               (Inr True, \<lparr>pending = ls, final_err = fe\<rparr>,
                PutParser (plm ts (updateMessageFieldName msgField
                                     (snd (extractTimestampFromFields E timeField fs)))
                             (GetParser w)))))"
  using create_line_ok
  by (intro readBulkLine_doc [OF readCommand_create]) (simp_all add: Scan_def)

lemma parse_1700:
  "parseElasticsearchTimestamp E ''1700000000000'' = Inr 1700000000000000000"
  by (simp add: parseElasticsearchTimestamp_unfold ParseInt_1700 sdiv_bounds wrap64_def)

lemma example_good_doc:
  "ParseLogMessage example_env good_doc
     = Some [\<lparr>Name = ''_time'', Value = ''1700000000000''\<rparr>, \<lparr>Name = ''message'', Value = good_doc\<rparr>]"
  by (simp add: example_env_def good_doc_def)

lemma example_bad_doc: "ParseLogMessage example_env bad_doc = None"
  by (simp add: example_env_def bad_doc_def)

lemma example_line_good:
  "readBulkLine example_env ''_time'' [] plm \<lparr>pending = create_line # good_doc # ls, final_err = fe\<rparr> w =
     (Inr True, \<lparr>pending = ls, final_err = fe\<rparr>,
      PutParser (plm 1700000000000000000
                   [\<lparr>Name = ''_time'', Value = []\<rparr>, \<lparr>Name = ''message'', Value = good_doc\<rparr>]
                   (GetParser w)))"
  by (simp add: readBulkLine_create example_good_doc parse_1700 updateMessageFieldName_def)

lemma example_line_bad:
  "readBulkLine example_env ''_time'' [] plm \<lparr>pending = create_line # bad_doc # ls, final_err = fe\<rparr> w =
     (Inl BadDocument, \<lparr>pending = ls, final_err = fe\<rparr>, GetParser w)"
  by (simp add: readBulkLine_create example_bad_doc)

lemma example_line_eof:
  "readBulkLine E timeField msgField plm \<lparr>pending = [], final_err = None\<rparr> w =
     (Inr False, \<lparr>pending = [], final_err = None\<rparr>, w)"
  by (simp add: readBulkLine_def readCommand_eof)

lemma example_NeedFlush: "NeedFlush example_env rows = (1000 \<le> length rows)"
  by (simp add: example_env_def)

lemmas run_simps =
  RequestHandler_bulk_def readBulkRequest_def GetLogRows_def PutLogRows_def MustAddRows_def
  readBulkRequest_loop.simps [of _ _ _ _ _ _ "\<lparr>pending = _ # _, final_err = _\<rparr>"]
  readBulkRequest_loop.simps [of _ _ _ _ _ _ "\<lparr>pending = [], final_err = _\<rparr>"]
  example_line_good example_line_bad example_line_eof processLogMessage_def MustAdd_def
  ResetKeepSettings_def GetParser_def PutParser_def rowsIngestedTotal_Add_def
  example_NeedFlush empty_world_def Let_def

section \<open>Whole requests: what the loop maintains\<close>

lemma readBulkLine_cases:
  assumes "readBulkLine E timeField msgField plm sc w = (r, sc', w')"
  shows "(r = Inr True \<and> (\<exists>ts fs. w' = PutParser (plm ts fs (GetParser w))))
       \<or> (r \<noteq> Inr True \<and> (w' = w \<or> w' = GetParser w))"
  using assms unfolding readBulkLine_def
  by (auto simp: Let_def split: prod.splits sum.splits option.splits if_splits scan_error.splits)

text \<open>What one debug-mode row does to the state.\<close>

lemma debug_row:
  assumes "lr w = []"
  shows "lr (PutParser (processLogMessage E tenant True ts fs (GetParser w))) = []"
    and "storage (PutParser (processLogMessage E tenant True ts fs (GetParser w))) = storage w"
    and "rowsDroppedTotal (PutParser (processLogMessage E tenant True ts fs (GetParser w)))
           = rowsDroppedTotal w + 1"
    and "rowsIngestedTotal (PutParser (processLogMessage E tenant True ts fs (GetParser w)))
           = rowsIngestedTotal w"
  by (simp_all add: processLogMessage_def PutParser_def GetParser_def ResetKeepSettings_def Let_def)

lemma debug_loop:
  assumes "readBulkRequest_loop E timeField msgField plm n nCheckpoint sc w = ((n', err), w')"
    and "plm = processLogMessage E tenant True"
    and "lr w = []"
  shows "lr w' = [] \<and> storage w' = storage w
       \<and> rowsDroppedTotal w' = rowsDroppedTotal w + (n' - n)
       \<and> rowsIngestedTotal w' = rowsIngestedTotal w + (n' - nCheckpoint)"
  using assms
proof (induction E timeField msgField plm n nCheckpoint sc w rule: readBulkRequest_loop.induct)
  case (1 E timeField msgField plm n nCheckpoint sc w)
  note plm = "1.prems"(2)
  obtain r sc1 w1 where line: "readBulkLine E timeField msgField plm sc w = (r, sc1, w1)"
    by (cases "readBulkLine E timeField msgField plm sc w")
  note run = "1.prems"(1) [unfolded readBulkRequest_loop.simps [of E timeField msgField plm n nCheckpoint sc w] line]
  show ?case
  proof (cases "r = Inr True")
    case False
    with readBulkLine_cases [OF line] have w1: "w1 = w \<or> w1 = GetParser w" by simp
    from False run have "n' = n" and "w' = rowsIngestedTotal_Add (n - nCheckpoint) w1"
      by (auto split: sum.splits bool.splits)
    with w1 "1.prems"(3) show ?thesis
      by (auto simp: rowsIngestedTotal_Add_def GetParser_def)
  next
    case True
    with readBulkLine_cases [OF line] obtain ts fs
      where w1: "w1 = PutParser (plm ts fs (GetParser w))" by auto
    note row = debug_row [OF "1.prems"(3), of E tenant ts fs, folded plm, folded w1]
    show ?thesis
    proof (cases "1000 \<le> n + 1")
      case big: True
      with True run have rec: "readBulkRequest_loop E timeField msgField plm
            (n + 1) (n + 1) sc1 (rowsIngestedTotal_Add (n + 1 - nCheckpoint) w1) = ((n', err), w')"
        by (simp add: Let_def)
      have "lr (rowsIngestedTotal_Add (n + 1 - nCheckpoint) w1) = []"
        using row by (simp add: rowsIngestedTotal_Add_def)
      from "1.IH"(1) [OF line [symmetric] True refl refl refl refl big rec plm this] row
      show ?thesis by (simp add: rowsIngestedTotal_Add_def)
    next
      case small: False
      with True run have rec: "readBulkRequest_loop E timeField msgField plm
            (n + 1) nCheckpoint sc1 w1 = ((n', err), w')"
        by (simp add: Let_def)
      from "1.IH"(2) [OF line [symmetric] True refl refl refl refl small rec plm row(1)] row
      show ?thesis by simp
    qed
  qed
qed

lemma readBulkLine_wellformed:
  assumes "wellformed_pair E timeField (cmd, doc)"
  shows "\<exists>ts fs. readBulkLine E timeField msgField plm \<lparr>pending = cmd # doc # ls, final_err = fe\<rparr> w
           = (Inr True, \<lparr>pending = ls, final_err = fe\<rparr>, PutParser (plm ts fs (GetParser w)))"
proof -
  from assms have cmd: "cmd \<noteq> []"
    and ok: "Contains cmd (quoted ''create'') \<or> Contains cmd (quoted ''index'')"
    by (auto simp: wellformed_pair_def)
  from assms obtain fs ts where fs: "ParseLogMessage E doc = Some fs"
    and ts: "fst (extractTimestampFromFields E timeField fs) = Inr ts"
    by (auto simp: wellformed_pair_def split: option.splits sum.splits)
  have sd: "Scan \<lparr>pending = doc # ls, final_err = fe\<rparr> = (Some doc, \<lparr>pending = ls, final_err = fe\<rparr>)"
    by (simp add: Scan_def)
  from readBulkLine_doc [OF readCommand_line [OF cmd] ok sd, of E timeField msgField plm w] fs ts
  show ?thesis by auto
qed

lemma loop_eof:
  "readBulkRequest_loop E timeField msgField plm n nCheckpoint \<lparr>pending = [], final_err = None\<rparr> w
     = ((n, None), rowsIngestedTotal_Add (n - nCheckpoint) w)"
  by (subst readBulkRequest_loop.simps) (simp add: example_line_eof)

lemma loop_wellformed_step:
  assumes "wellformed_pair E timeField (cmd, doc)"
  shows "\<exists>ts fs. readBulkRequest_loop E timeField msgField plm n nCheckpoint
                    \<lparr>pending = cmd # doc # ls, final_err = fe\<rparr> w
           = (if 1000 \<le> n + 1
              then readBulkRequest_loop E timeField msgField plm (n + 1) (n + 1)
                     \<lparr>pending = ls, final_err = fe\<rparr>
                     (rowsIngestedTotal_Add (n + 1 - nCheckpoint) (PutParser (plm ts fs (GetParser w))))
              else readBulkRequest_loop E timeField msgField plm (n + 1) nCheckpoint
                     \<lparr>pending = ls, final_err = fe\<rparr> (PutParser (plm ts fs (GetParser w))))"
proof -
  from readBulkLine_wellformed [OF assms, of msgField plm ls fe w] obtain ts fs
    where "readBulkLine E timeField msgField plm \<lparr>pending = cmd # doc # ls, final_err = fe\<rparr> w
           = (Inr True, \<lparr>pending = ls, final_err = fe\<rparr>, PutParser (plm ts fs (GetParser w)))"
    by blast
  then show ?thesis
    by (subst readBulkRequest_loop.simps) (auto simp: Let_def)
qed

lemma loop_wellformed_count:
  "\<forall>p \<in> set ps. wellformed_pair E timeField p \<Longrightarrow>
     fst (readBulkRequest_loop E timeField msgField plm n nCheckpoint
            \<lparr>pending = line_pairs ps, final_err = None\<rparr> w) = (n + int (length ps), None)"
proof (induction ps arbitrary: n nCheckpoint w)
  case Nil
  show ?case by (simp add: loop_eof)
next
  case (Cons p ps)
  obtain cmd doc where p: "p = (cmd, doc)" by (cases p)
  from Cons.prems p have wf: "wellformed_pair E timeField (cmd, doc)" by simp
  from Cons.prems have rest: "\<forall>p \<in> set ps. wellformed_pair E timeField p" by simp
  from loop_wellformed_step [OF wf, of msgField plm n nCheckpoint "line_pairs ps" None w]
  obtain ts fs where step: "readBulkRequest_loop E timeField msgField plm n nCheckpoint
                    \<lparr>pending = cmd # doc # line_pairs ps, final_err = None\<rparr> w
           = (if 1000 \<le> n + 1
              then readBulkRequest_loop E timeField msgField plm (n + 1) (n + 1)
                     \<lparr>pending = line_pairs ps, final_err = None\<rparr>
                     (rowsIngestedTotal_Add (n + 1 - nCheckpoint) (PutParser (plm ts fs (GetParser w))))
              else readBulkRequest_loop E timeField msgField plm (n + 1) nCheckpoint
                     \<lparr>pending = line_pairs ps, final_err = None\<rparr> (PutParser (plm ts fs (GetParser w))))"
    by blast
  show ?case
    unfolding p line_pairs.simps step
    by (simp add: Cons.IH [OF rest])
qed

text \<open>The arguments of the calls of the counter, for a request of well-formed line-pairs.\<close>

lemma adds_after_1000:
  assumes pres: "\<And>ts fs w. ingestedAdds (plm ts fs w) = ingestedAdds w"
  shows "\<forall>p \<in> set ps. wellformed_pair E timeField p \<Longrightarrow> 1000 \<le> n \<Longrightarrow>
     ingestedAdds (snd (readBulkRequest_loop E timeField msgField plm n n
            \<lparr>pending = line_pairs ps, final_err = None\<rparr> w))
       = ingestedAdds w @ replicate (length ps) 1 @ [0]"
proof (induction ps arbitrary: n w)
  case Nil
  show ?case by (simp add: loop_eof rowsIngestedTotal_Add_def)
next
  case (Cons p ps)
  obtain cmd doc where p: "p = (cmd, doc)" by (cases p)
  from Cons.prems p have wf: "wellformed_pair E timeField (cmd, doc)" by simp
  from Cons.prems have rest: "\<forall>p \<in> set ps. wellformed_pair E timeField p" by simp
  from loop_wellformed_step [OF wf, of msgField plm n n "line_pairs ps" None w]
  obtain ts fs where step: "readBulkRequest_loop E timeField msgField plm n n
                    \<lparr>pending = cmd # doc # line_pairs ps, final_err = None\<rparr> w
           = (if 1000 \<le> n + 1
              then readBulkRequest_loop E timeField msgField plm (n + 1) (n + 1)
                     \<lparr>pending = line_pairs ps, final_err = None\<rparr>
                     (rowsIngestedTotal_Add (n + 1 - n) (PutParser (plm ts fs (GetParser w))))
              else readBulkRequest_loop E timeField msgField plm (n + 1) n
                     \<lparr>pending = line_pairs ps, final_err = None\<rparr> (PutParser (plm ts fs (GetParser w))))"
    by blast
  from Cons.prems have big: "1000 \<le> n + 1" by simp
  show ?case
    unfolding p line_pairs.simps step
    using big Cons.IH [OF rest big]
    by (simp add: rowsIngestedTotal_Add_def PutParser_def GetParser_def pres replicate_append_same)
qed

lemma adds_across_1000:
  assumes pres: "\<And>ts fs w. ingestedAdds (plm ts fs w) = ingestedAdds w"
  shows "\<forall>p \<in> set ps. wellformed_pair E timeField p \<Longrightarrow> n < 1000 \<Longrightarrow> 1000 \<le> n + int (length ps) \<Longrightarrow>
     ingestedAdds (snd (readBulkRequest_loop E timeField msgField plm n nCheckpoint
            \<lparr>pending = line_pairs ps, final_err = None\<rparr> w))
       = ingestedAdds w @ [1000 - nCheckpoint] @ replicate (nat (n + int (length ps) - 1000)) 1 @ [0]"
proof (induction ps arbitrary: n w)
  case Nil
  then show ?case by simp
next
  case (Cons p ps)
  obtain cmd doc where p: "p = (cmd, doc)" by (cases p)
  from Cons.prems p have wf: "wellformed_pair E timeField (cmd, doc)" by simp
  from Cons.prems have rest: "\<forall>p \<in> set ps. wellformed_pair E timeField p" by simp
  from loop_wellformed_step [OF wf, of msgField plm n nCheckpoint "line_pairs ps" None w]
  obtain ts fs where step: "readBulkRequest_loop E timeField msgField plm n nCheckpoint
                    \<lparr>pending = cmd # doc # line_pairs ps, final_err = None\<rparr> w
           = (if 1000 \<le> n + 1
              then readBulkRequest_loop E timeField msgField plm (n + 1) (n + 1)
                     \<lparr>pending = line_pairs ps, final_err = None\<rparr>
                     (rowsIngestedTotal_Add (n + 1 - nCheckpoint) (PutParser (plm ts fs (GetParser w))))
              else readBulkRequest_loop E timeField msgField plm (n + 1) nCheckpoint
                     \<lparr>pending = line_pairs ps, final_err = None\<rparr> (PutParser (plm ts fs (GetParser w))))"
    by blast
  show ?case
  proof (cases "1000 \<le> n + 1")
    case True
    with Cons.prems have n: "n = 999" by simp
    from adds_after_1000 [OF pres rest True] True n
    show ?thesis
      unfolding p line_pairs.simps step
      by (simp add: rowsIngestedTotal_Add_def PutParser_def GetParser_def pres)
  next
    case False
    then have small: "n + 1 < 1000" by simp
    from Cons.prems have len: "1000 \<le> n + 1 + int (length ps)" by simp
    have eq: "nat (n + 1 + int (length ps) - 1000) = nat (n + int (length (p # ps)) - 1000)" by simp
    from Cons.IH [OF rest small len, of "PutParser (plm ts fs (GetParser w))"] False
    show ?thesis
      unfolding p line_pairs.simps step
      by (simp add: PutParser_def GetParser_def pres add.commute add.left_commute)
  qed
qed

lemma example_pair_wellformed: "wellformed_pair example_env ''_time'' (create_line, good_doc)"
  using create_line_ok by (simp add: wellformed_pair_def example_good_doc parse_1700)

lemma processLogMessage_ingestedAdds:
  "ingestedAdds (processLogMessage E tenant isDebug ts fs w) = ingestedAdds w"
  by (simp add: processLogMessage_def MustAddRows_def Let_def)

lemma debug_handler:
  assumes "RequestHandler_bulk E tenant tf msgf True isGzip body w0 = (out, w')"
  shows "concat (storage w') = concat (storage w0)
       \<and> rowsDroppedTotal w' = rowsDroppedTotal w0 + rows_of out
       \<and> rowsIngestedTotal w' = rowsIngestedTotal w0 + rows_of out"
proof -
  let ?tf = "if tf \<noteq> [] then tf else ''_time''"
  let ?mf = "if msgf \<noteq> [] then msgf else []"
  let ?plm = "processLogMessage E tenant True"
  let ?w1 = "GetLogRows (w0\<lparr>bulkRequestsTotal := bulkRequestsTotal w0 + 1\<rparr>)"
  obtain n err w2 where rd: "readBulkRequest E body isGzip ?tf ?mf ?plm ?w1 = ((n, err), w2)"
    by (cases "readBulkRequest E body isGzip ?tf ?mf ?plm ?w1") auto
  have inv: "lr w2 = [] \<and> storage w2 = storage w0
       \<and> rowsDroppedTotal w2 = rowsDroppedTotal w0 + n
       \<and> rowsIngestedTotal w2 = rowsIngestedTotal w0 + n"
  proof (cases "if isGzip then GetGzipReader E body else Some body")
    case None
    with rd show ?thesis by (auto simp: readBulkRequest_def GetLogRows_def)
  next
    case (Some r')
    let ?w3 = "(if isGzip then ?w1\<lparr>gzipReadersOut := gzipReadersOut ?w1 + 1\<rparr> else ?w1)
                 \<lparr>wcReadersOut := wcReadersOut (if isGzip then ?w1\<lparr>gzipReadersOut := gzipReadersOut ?w1 + 1\<rparr> else ?w1) + 1,
                  lineBuffersOut := lineBuffersOut (if isGzip then ?w1\<lparr>gzipReadersOut := gzipReadersOut ?w1 + 1\<rparr> else ?w1) + 1\<rparr>"
    obtain n4 e4 w4 where loop: "readBulkRequest_loop E ?tf ?mf ?plm 0 0 r' ?w3 = ((n4, e4), w4)"
      by (cases "readBulkRequest_loop E ?tf ?mf ?plm 0 0 r' ?w3") auto
    have "lr ?w3 = []" by (simp add: GetLogRows_def)
    from debug_loop [OF loop refl this]
    have "lr w4 = [] \<and> storage w4 = storage w0
       \<and> rowsDroppedTotal w4 = rowsDroppedTotal w0 + n4
       \<and> rowsIngestedTotal w4 = rowsIngestedTotal w0 + n4"
      by (simp add: GetLogRows_def)
    moreover from rd Some loop have "n = n4" and "lr w2 = lr w4" and "storage w2 = storage w4"
      and "rowsDroppedTotal w2 = rowsDroppedTotal w4" and "rowsIngestedTotal w2 = rowsIngestedTotal w4"
      by (auto simp: readBulkRequest_def Let_def)
    ultimately show ?thesis by simp
  qed
  from assms rd have "(out = Warned n (the err) \<and> err \<noteq> None \<and> w' = w2)
      \<or> (out = BulkResponse n \<and> w' = PutLogRows (MustAddRows w2))"
    by (auto simp: RequestHandler_bulk_def Let_def split: option.splits)
  with inv show ?thesis
    by (auto simp: PutLogRows_def MustAddRows_def)
qed

lemma handler_wellformed_count:
  assumes "\<forall>p \<in> set ps. wellformed_pair E (if tf \<noteq> [] then tf else ''_time'') p"
  shows "fst (RequestHandler_bulk E tenant tf msgf isDebug False
               \<lparr>pending = line_pairs ps, final_err = None\<rparr> w0) = BulkResponse (int (length ps))"
proof -
  let ?tf = "if tf \<noteq> [] then tf else ''_time''"
  let ?mf = "if msgf \<noteq> [] then msgf else []"
  let ?plm = "processLogMessage E tenant isDebug"
  let ?w1 = "GetLogRows (w0\<lparr>bulkRequestsTotal := bulkRequestsTotal w0 + 1\<rparr>)"
  let ?w3 = "?w1\<lparr>wcReadersOut := wcReadersOut ?w1 + 1, lineBuffersOut := lineBuffersOut ?w1 + 1\<rparr>"
  let ?sc = "\<lparr>pending = line_pairs ps, final_err = None\<rparr>"
  obtain res w4 where loop: "readBulkRequest_loop E ?tf ?mf ?plm 0 0 ?sc ?w3 = (res, w4)"
    by (cases "readBulkRequest_loop E ?tf ?mf ?plm 0 0 ?sc ?w3")
  from loop_wellformed_count [OF assms, where msgField = ?mf and plm = ?plm and n = 0
                                and nCheckpoint = 0 and w = ?w3] loop
  have res: "res = (int (length ps), None)" by simp
  from loop res show ?thesis
    by (simp add: RequestHandler_bulk_def readBulkRequest_def Let_def)
qed

section \<open>Whole requests: the claims\<close>

text \<open>
  Claim C1 says that after N well-formed line-pairs and one that fails to decode, the
  handler still flushes the batch, so that N rows reach the storage accept path.  The
  handler returns right after logging the error instead.  On one well-formed line-pair
  followed by a command and an undecodable document, the reported row count is 1, the row
  is still in the batch, and nothing has been handed to the storage.
\<close>

theorem error_return_skips_final_flush:
  "RequestHandler_bulk example_env 0 [] [] False False
      \<lparr>pending = [create_line, good_doc, create_line, bad_doc], final_err = None\<rparr> empty_world
   = (Warned 1 BadDocument,
      empty_world\<lparr>lr := [\<lparr>rowTenant = 0, rowTimestamp = 1700000000000000000,
                           rowFields = [\<lparr>Name = ''_time'', Value = []\<rparr>,
                                        \<lparr>Name = ''message'', Value = good_doc\<rparr>]\<rparr>],
                  storage := [],
                  rowsIngestedTotal := 1, ingestedAdds := [1], bulkRequestsTotal := 1,
                  parsersOut := 1, logRowsOut := 1\<rparr>)"
  by (simp add: run_simps)

text \<open>
  Claim C8 says that the line buffer, the parser and the batch go back to their pools on
  every exit path.  On a command followed by an undecodable document only the line buffer
  is back: one parser and one batch are still checked out when the handler returns.
\<close>

theorem error_return_keeps_pooled_objects:
  "snd (RequestHandler_bulk example_env 0 [] [] False False
      \<lparr>pending = [create_line, bad_doc], final_err = None\<rparr> empty_world)
   = empty_world\<lparr>rowsIngestedTotal := 0, ingestedAdds := [0], bulkRequestsTotal := 1,
                  lineBuffersOut := 0, parsersOut := 1, logRowsOut := 1\<rparr>"
  by (simp add: run_simps)

text \<open>
  Claim C6 says that the ingested-row counter is incremented once every 1000 rows and once
  more at the end of the stream.  On 1001 well-formed line-pairs the counter is incremented
  by 1000 after row 1000, by 1 after row 1001, and by 0 at the end of the stream: from row
  1000 on the test \<open>n \<ge> 1000\<close> holds on every row.  The increments still add up to the
  number of rows.
\<close>

theorem counter_incremented_per_row_after_1000:
  "fst (readBulkRequest example_env
          \<lparr>pending = line_pairs (replicate 1001 (create_line, good_doc)), final_err = None\<rparr>
          False ''_time'' [] (processLogMessage example_env 0 False) empty_world)
     = (1001, None)
   \<and> ingestedAdds (snd (readBulkRequest example_env
          \<lparr>pending = line_pairs (replicate 1001 (create_line, good_doc)), final_err = None\<rparr>
          False ''_time'' [] (processLogMessage example_env 0 False) empty_world))
     = [1000, 1, 0]"
proof -
  let ?sc = "\<lparr>pending = line_pairs (replicate 1001 (create_line, good_doc)), final_err = None\<rparr>"
  let ?plm = "processLogMessage example_env 0 False"
  let ?w3 = "empty_world\<lparr>wcReadersOut := wcReadersOut empty_world + 1,
                         lineBuffersOut := lineBuffersOut empty_world + 1\<rparr>"
  have wf: "\<forall>p \<in> set (replicate 1001 (create_line, good_doc)). wellformed_pair example_env ''_time'' p"
    using example_pair_wellformed by simp
  have pres: "ingestedAdds (?plm ts fs w) = ingestedAdds w" for ts fs w
    by (rule processLogMessage_ingestedAdds)
  obtain res w4 where loop: "readBulkRequest_loop example_env ''_time'' [] ?plm 0 0 ?sc ?w3 = (res, w4)"
    by (cases "readBulkRequest_loop example_env ''_time'' [] ?plm 0 0 ?sc ?w3")
  from loop_wellformed_count [OF wf, where msgField = "[]" and plm = ?plm and n = 0
                                and nCheckpoint = 0 and w = ?w3] loop
  have res: "res = (1001, None)" by simp
  from adds_across_1000 [where plm = ?plm and msgField = "[]" and n = 0 and nCheckpoint = 0
                           and w = ?w3, OF pres wf] loop
  have adds: "ingestedAdds w4 = [1000, 1, 0]"
    by (simp add: empty_world_def)
  from loop res adds show ?thesis
    by (simp add: readBulkRequest_def Let_def)
qed

text \<open>
  Claim C2 as stated says that a debug request leaves the ingested-row counter unchanged.
  On a debug request of one well-formed line-pair the counter goes from 0 to 1.
\<close>

theorem debug_rows_are_counted_as_ingested_counterexample:
  "RequestHandler_bulk example_env 0 [] [] True False
      \<lparr>pending = [create_line, good_doc], final_err = None\<rparr> empty_world
   = (BulkResponse 1,
      empty_world\<lparr>storage := [[]], rowsDroppedTotal := 1, rowsIngestedTotal := 1,
                  ingestedAdds := [1], bulkRequestsTotal := 1\<rparr>)
   \<and> rowsIngestedTotal empty_world = 0"
  by (simp add: run_simps)

text \<open>
  Claim C2, as the code has it.  For every request with the debug flag set, whatever its
  body: no row reaches the storage accept path, the dropped-row counter grows by the
  number of decoded line-pairs that the handler reports, and the ingested-row counter
  grows by the same number, since the reading loop counts every decoded line-pair
  whether or not the sink drops it.  For a body of N well-formed line-pairs the reported
  number is N.
\<close>

theorem debug_request_drops_and_counts_every_row:
  "(RequestHandler_bulk E tenant tf msgf True isGzip body w0 = (out, w') \<longrightarrow>
      concat (storage w') = concat (storage w0)
      \<and> rowsDroppedTotal w' = rowsDroppedTotal w0 + rows_of out
      \<and> rowsIngestedTotal w' = rowsIngestedTotal w0 + rows_of out)
   \<and> ((\<forall>p \<in> set ps. wellformed_pair E (if tf \<noteq> [] then tf else ''_time'') p) \<longrightarrow>
      rows_of (fst (RequestHandler_bulk E tenant tf msgf True False
                      \<lparr>pending = line_pairs ps, final_err = None\<rparr> w0)) = int (length ps))"
  using debug_handler [of E tenant tf msgf isGzip body w0 out w']
        handler_wellformed_count [of ps E tf tenant msgf True w0]
  by simp

theorem debug_request_drops_and_counts_every_row_witness:
  "RequestHandler_bulk example_env 0 [] [] True False
      \<lparr>pending = line_pairs [(create_line, good_doc), (create_line, good_doc)], final_err = None\<rparr>
      empty_world
   = (BulkResponse 2,
      empty_world\<lparr>storage := [[]], rowsDroppedTotal := 2, rowsIngestedTotal := 2,
                  ingestedAdds := [2], bulkRequestsTotal := 1\<rparr>)
   \<and> concat (storage (empty_world\<lparr>storage := [[]], rowsDroppedTotal := 2, rowsIngestedTotal := 2,
                  ingestedAdds := [2], bulkRequestsTotal := 1\<rparr>)) = concat (storage empty_world)
   \<and> rowsDroppedTotal (empty_world\<lparr>storage := [[]], rowsDroppedTotal := 2, rowsIngestedTotal := 2,
                  ingestedAdds := [2], bulkRequestsTotal := 1\<rparr>) = rowsDroppedTotal empty_world + 2
   \<and> rowsIngestedTotal (empty_world\<lparr>storage := [[]], rowsDroppedTotal := 2, rowsIngestedTotal := 2,
                  ingestedAdds := [2], bulkRequestsTotal := 1\<rparr>) = rowsIngestedTotal empty_world + 2
   \<and> wellformed_pair example_env ''_time'' (create_line, good_doc)
   \<and> rows_of (fst (RequestHandler_bulk example_env 0 [] [] True False
      \<lparr>pending = line_pairs [(create_line, good_doc), (create_line, good_doc)], final_err = None\<rparr>
      empty_world)) = 2"
proof -
  let ?w = "empty_world\<lparr>storage := [[]], rowsDroppedTotal := 2, rowsIngestedTotal := 2,
                  ingestedAdds := [2], bulkRequestsTotal := 1\<rparr>"
  have run: "RequestHandler_bulk example_env 0 [] [] True False
      \<lparr>pending = line_pairs [(create_line, good_doc), (create_line, good_doc)], final_err = None\<rparr>
      empty_world = (BulkResponse 2, ?w)"
    by (simp add: run_simps)
  from debug_request_drops_and_counts_every_row
         [of example_env 0 "[]" "[]" False
             "\<lparr>pending = line_pairs [(create_line, good_doc), (create_line, good_doc)], final_err = None\<rparr>"
             empty_world "BulkResponse 2" ?w "[(create_line, good_doc), (create_line, good_doc)]",
          THEN conjunct1, rule_format, OF run]
  have "concat (storage ?w) = concat (storage empty_world)
      \<and> rowsDroppedTotal ?w = rowsDroppedTotal empty_world + 2
      \<and> rowsIngestedTotal ?w = rowsIngestedTotal empty_world + 2"
    by simp
  moreover
  have wf: "\<forall>p \<in> set [(create_line, good_doc), (create_line, good_doc)].
              wellformed_pair example_env (if [] \<noteq> ([] :: string) then [] else ''_time'') p"
    using example_pair_wellformed by simp
  from debug_request_drops_and_counts_every_row
         [of example_env 0 "[]" "[]" False
             "\<lparr>pending = line_pairs [(create_line, good_doc), (create_line, good_doc)], final_err = None\<rparr>"
             empty_world "BulkResponse 2" ?w "[(create_line, good_doc), (create_line, good_doc)]",
          THEN conjunct2] wf
  have "rows_of (fst (RequestHandler_bulk example_env 0 [] [] True False
      \<lparr>pending = line_pairs [(create_line, good_doc), (create_line, good_doc)], final_err = None\<rparr>
      empty_world)) = 2"
    by simp
  ultimately show ?thesis using run example_pair_wellformed by blast
qed

end
